theory Spec2Isabelle
  imports Complex_Main
begin

section \<open>The outbound delivery core of \<^verbatim>\<open>src/lib/whatsappService.ts\<close>\<close>

text \<open>
  A shallow embedding of the connection manager, the two delivery backends, the batch
  dispatcher and the phone/message normaliser. JavaScript strings are modelled as HOL
  strings; every character the code inspects (the decimal digits, the placeholder
  \<^verbatim>\<open>[Name]\<close>, the dollar patterns of \<^verbatim>\<open>String.prototype.replace\<close>) is ASCII. The
  counters the code keeps itself are integers; the numbers a caller passes in (batch
  size, delay, retry bound) are JavaScript numbers, modelled below. A thrown value is either an
  \<^verbatim>\<open>Error\<close> instance carrying its message or some other value. The helpers for the
  session directory and the two getters of the connection state are left out: they touch
  the file system or only read the state.
\<close>

subsection \<open>Thrown values and optional strings\<close>

datatype thrown = JsError string | OtherValue

text \<open>\<^verbatim>\<open>error instanceof Error ? error.message : dflt\<close>\<close>

fun message_or :: "thrown \<Rightarrow> string \<Rightarrow> string" where
  "message_or (JsError m) dflt = m"
| "message_or OtherValue dflt = dflt"

text \<open>\<^verbatim>\<open>x || dflt\<close> for an optional string: \<^verbatim>\<open>undefined\<close> and the empty string are falsy.\<close>

fun or_else :: "string option \<Rightarrow> string \<Rightarrow> string" where
  "or_else None dflt = dflt"
| "or_else (Some s) dflt = (if s = [] then dflt else s)"

subsection \<open>Data model\<close>

record contact =
  id_contact :: string
  phone :: string
  name :: "string option"
  customMessage :: "string option"

record message_result =
  success :: bool
  error :: "string option"
  messageId :: "string option"

text \<open>The dispatcher pushes \<^verbatim>\<open>{...result, contactId: contact.id}\<close>.\<close>

record tagged_result = message_result +
  contactId :: string

type_synonym client_handle = nat

record client_state =
  client :: "client_handle option"
  isReady :: bool
  isConnecting :: bool
  currentQR :: "string option"
  lastError :: "string option"
  connectionAttempts :: int

definition clientState_initial :: client_state where
  "clientState_initial =
     \<lparr>client = None, isReady = False, isConnecting = False, currentQR = None,
      lastError = None, connectionAttempts = 0\<rparr>"

definition MAX_CONNECTION_ATTEMPTS :: int where
  "MAX_CONNECTION_ATTEMPTS = 3"

subsection \<open>Phone and message normaliser\<close>

definition is_digit :: "char \<Rightarrow> bool" where
  "is_digit c = (c \<in> set ''0123456789'')"

text \<open>\<^verbatim>\<open>phone.replace(/\D/g, '')\<close>: every character matching \<^verbatim>\<open>\D\<close> is replaced by nothing.\<close>

fun strip_non_digits :: "string \<Rightarrow> string" where
  "strip_non_digits [] = []"
| "strip_non_digits (c # cs) =
     (if is_digit c then c # strip_non_digits cs else strip_non_digits cs)"

definition formatPhoneNumber :: "string \<Rightarrow> string" where
  "formatPhoneNumber ph =
     (let cleaned = strip_non_digits ph
      in if length cleaned = 10 then ''1'' @ cleaned else cleaned)"

text \<open>
  \<^verbatim>\<open>message.replace(/\[Name\]/g, replacement)\<close> with a string replacement. The language
  expands the replacement at every match (ECMAScript \<^verbatim>\<open>GetSubstitution\<close>): \<^verbatim>\<open>$$\<close> is a
  dollar sign, \<^verbatim>\<open>$&\<close> the matched text, a dollar followed by a backtick the text before
  the match, a dollar followed by an apostrophe the text after it. The pattern has no
  capture group, so \<^verbatim>\<open>$1\<close>, \<^verbatim>\<open>$<\<close> and every other dollar stay as they are.
\<close>

fun getSubstitution :: "string \<Rightarrow> string \<Rightarrow> string \<Rightarrow> string \<Rightarrow> string" where
  "getSubstitution matched preceding following [] = []"
| "getSubstitution matched preceding following [c] = [c]"
| "getSubstitution matched preceding following (c # d # rest) =
     (if c \<noteq> CHR ''$'' then c # getSubstitution matched preceding following (d # rest)
      else if d = CHR ''$'' then CHR ''$'' # getSubstitution matched preceding following rest
      else if d = CHR ''&'' then matched @ getSubstitution matched preceding following rest
      else if d = CHR 0x60 then preceding @ getSubstitution matched preceding following rest
      else if d = CHR 0x27 then following @ getSubstitution matched preceding following rest
      else c # getSubstitution matched preceding following (d # rest))"

text \<open>
  The global scan: matches are found left to right and do not overlap; \<open>preceding\<close> is
  the part of the original string already scanned.
\<close>

fun replace_Name :: "string \<Rightarrow> string \<Rightarrow> string \<Rightarrow> string" where
  "replace_Name repl preceding [] = []"
| "replace_Name repl preceding (c # cs) =
     (if take 6 (c # cs) = ''[Name]''
      then getSubstitution ''[Name]'' preceding (drop 6 (c # cs)) repl
             @ replace_Name repl (preceding @ ''[Name]'') (drop 5 cs)
      else c # replace_Name repl (preceding @ [c]) cs)"

text \<open>\<^verbatim>\<open>message.replace(/\[Name\]/g, contact.name || 'there')\<close>, as both backends compute it.\<close>

definition personalizedMessage :: "string \<Rightarrow> contact \<Rightarrow> string" where
  "personalizedMessage message c = replace_Name (or_else (name c) ''there'') [] message"

text \<open>
  What the specification describes: every occurrence of the placeholder is replaced by
  the given text, taken literally.
\<close>

fun substitute_literally :: "string \<Rightarrow> string \<Rightarrow> string" where
  "substitute_literally repl [] = []"
| "substitute_literally repl (c # cs) =
     (if take 6 (c # cs) = ''[Name]''
      then repl @ substitute_literally repl (drop 5 cs)
      else c # substitute_literally repl cs)"

subsection \<open>Connection manager\<close>

text \<open>
  What the manager does to the outside is returned as a list of effects. The outcome of
  each external call is an argument: \<open>None\<close> when the call succeeds, \<open>Some e\<close> when it
  throws or rejects with \<open>e\<close>.
\<close>

datatype effect =
    Destroy client_handle
  | CreateSession client_handle
  | ArmTimeout
  | OpenSession client_handle
  | ClearTimeout
  | ScheduleCleanup
  | ScheduleReconnect

text \<open>
  The outcomes one call of the initialiser meets: of the teardown of a session found in
  place, of the steps up to the creation of the new session (the session directory, the
  constructor), the handle of the new session, the outcome of \<^verbatim>\<open>client.initialize()\<close>, and
  of the teardown in the \<^verbatim>\<open>catch\<close> block.
\<close>

record init_outcomes =
  destroy_old :: "thrown option"
  session_setup :: "thrown option"
  fresh :: client_handle
  open_session :: "thrown option"
  destroy_failed :: "thrown option"

text \<open>
  \<^verbatim>\<open>try { await client.destroy() } catch (error) { console.log(...) }\<close>: the teardown is
  requested and whatever it throws is logged and dropped.
\<close>

fun destroy_best_effort :: "thrown option \<Rightarrow> client_handle \<Rightarrow> effect list" where
  "destroy_best_effort None h = [Destroy h]"
| "destroy_best_effort (Some e) h = [Destroy h]"

definition ConnectionExhausted :: thrown where
  "ConnectionExhausted =
     JsError ''Maximum connection attempts (3) exceeded. Please try again later.''"

text \<open>The \<^verbatim>\<open>catch\<close> block of the initialiser (the error is thrown again by the caller).\<close>

definition initialize_catch ::
  "thrown option \<Rightarrow> thrown \<Rightarrow> client_state \<Rightarrow> effect list \<times> client_state" where
  "initialize_catch destroy_outcome e s =
     (let s1 = s\<lparr>lastError := Some (message_or e ''Unknown initialization error''),
                 isConnecting := False, isReady := False\<rparr>
      in case client s1 of
           Some h \<Rightarrow> (destroy_best_effort destroy_outcome h, s1\<lparr>client := None\<rparr>)
         | None \<Rightarrow> ([], s1))"

text \<open>
  The initialiser up to \<^verbatim>\<open>await clientState.client.initialize()\<close>. \<open>Inl r\<close>: the call has
  ended with \<open>r\<close>; \<open>Inr ()\<close>: it is suspended there, with the session being opened.
\<close>

definition initialize_start ::
  "init_outcomes \<Rightarrow> client_state \<Rightarrow> ((thrown + unit) + unit) \<times> effect list \<times> client_state" where
  "initialize_start oc s =
     (if isConnecting s then (Inl (Inr ()), [], s)
      else if client s \<noteq> None \<and> isReady s then (Inl (Inr ()), [], s)
      else if connectionAttempts s \<ge> MAX_CONNECTION_ATTEMPTS
        then (Inl (Inl ConnectionExhausted), [], s)
      else
        let s1 = s\<lparr>isConnecting := True, connectionAttempts := connectionAttempts s + 1,
                    lastError := None, currentQR := None\<rparr>;
            (fx1, s2) = (case client s1 of
                           Some h \<Rightarrow> (destroy_best_effort (destroy_old oc) h,
                                      s1\<lparr>client := None, isReady := False\<rparr>)
                         | None \<Rightarrow> ([], s1))
        in case session_setup oc of
             Some e \<Rightarrow>
               (let (fx2, s3) = initialize_catch (destroy_failed oc) e s2
                in (Inl (Inl e), fx1 @ fx2, s3))
           | None \<Rightarrow>
               (Inr (),
                fx1 @ [CreateSession (fresh oc), ArmTimeout, OpenSession (fresh oc)],
                s2\<lparr>client := Some (fresh oc)\<rparr>))"

text \<open>The initialiser after \<^verbatim>\<open>client.initialize()\<close> has settled.\<close>

definition initialize_settle ::
  "init_outcomes \<Rightarrow> client_state \<Rightarrow> (thrown + unit) \<times> effect list \<times> client_state" where
  "initialize_settle oc s =
     (case open_session oc of
        None \<Rightarrow> (Inr (), [ClearTimeout], s)
      | Some e \<Rightarrow>
          (let (fx, s') = initialize_catch (destroy_failed oc) e s
           in (Inl e, fx, s')))"

text \<open>The whole call, when nothing else runs while it is suspended.\<close>

definition initializeWhatsAppWebClient ::
  "init_outcomes \<Rightarrow> client_state \<Rightarrow> (thrown + unit) \<times> effect list \<times> client_state" where
  "initializeWhatsAppWebClient oc s =
     (case initialize_start oc s of
        (Inl r, fx, s1) \<Rightarrow> (r, fx, s1)
      | (Inr _, fx, s1) \<Rightarrow>
          (case initialize_settle oc s1 of (r, fx', s2) \<Rightarrow> (r, fx @ fx', s2)))"

text \<open>The handlers registered on the session, and the startup timer's callback.\<close>

definition on_qr :: "string \<Rightarrow> client_state \<Rightarrow> client_state" where
  "on_qr qr s = s\<lparr>currentQR := Some qr\<rparr>"

definition on_ready :: "client_state \<Rightarrow> client_state" where
  "on_ready s = s\<lparr>isReady := True, isConnecting := False, currentQR := None,
                   connectionAttempts := 0\<rparr>"

definition on_authenticated :: "client_state \<Rightarrow> client_state" where
  "on_authenticated s = s"

definition on_auth_failure :: "string \<Rightarrow> client_state \<Rightarrow> effect list \<times> client_state" where
  "on_auth_failure msg s =
     ([ScheduleCleanup],
      s\<lparr>lastError := Some (''Authentication failed: '' @ msg),
        isReady := False, isConnecting := False\<rparr>)"

definition on_disconnected :: "string \<Rightarrow> client_state \<Rightarrow> effect list \<times> client_state" where
  "on_disconnected reason s =
     (if reason \<noteq> ''LOGOUT'' then [ScheduleReconnect] else [],
      s\<lparr>isReady := False, isConnecting := False, currentQR := None,
        lastError := Some (''Disconnected: '' @ reason)\<rparr>)"

text \<open>
  The timer's callback calls \<^verbatim>\<open>client.destroy().catch(console.error)\<close> without awaiting it
  and clears the handle at once.
\<close>

definition on_timeout :: "client_state \<Rightarrow> effect list \<times> client_state" where
  "on_timeout s =
     (if isConnecting s then
        (let s1 = s\<lparr>lastError := Some ''Connection timeout'', isConnecting := False\<rparr>
         in case client s1 of
              Some h \<Rightarrow> ([Destroy h], s1\<lparr>client := None\<rparr>)
            | None \<Rightarrow> ([], s1))
      else ([], s))"

definition disconnectWhatsAppWeb ::
  "thrown option \<Rightarrow> client_state \<Rightarrow> effect list \<times> client_state" where
  "disconnectWhatsAppWeb destroy_outcome s =
     (case client s of
        Some h \<Rightarrow>
          (destroy_best_effort destroy_outcome h,
           s\<lparr>client := None, isReady := False, isConnecting := False, currentQR := None,
             lastError := None, connectionAttempts := 0\<rparr>)
      | None \<Rightarrow> ([], s))"

definition resetConnectionAttempts :: "client_state \<Rightarrow> client_state" where
  "resetConnectionAttempts s = s\<lparr>connectionAttempts := 0, lastError := None\<rparr>"

subsection \<open>JavaScript numbers\<close>

text \<open>
  A number is finite, one of the two infinities, or \<^verbatim>\<open>NaN\<close>. Finite numbers are
  rationals and their arithmetic is exact. The language computes with doubles, which
  agree with this wherever no rounding occurs: on the integers of magnitude up to
  \<open>MAX_SAFE_INTEGER\<close> and on the halves used below.
\<close>

datatype number = Finite rat | PosInfinity | NegInfinity | NaN

definition MAX_SAFE_INTEGER :: int where
  "MAX_SAFE_INTEGER = 9007199254740991"

fun number_add :: "number \<Rightarrow> number \<Rightarrow> number" where
  "number_add (Finite a) (Finite b) = Finite (a + b)"
| "number_add NaN y = NaN"
| "number_add x NaN = NaN"
| "number_add PosInfinity NegInfinity = NaN"
| "number_add NegInfinity PosInfinity = NaN"
| "number_add PosInfinity y = PosInfinity"
| "number_add x PosInfinity = PosInfinity"
| "number_add NegInfinity y = NegInfinity"
| "number_add x NegInfinity = NegInfinity"

text \<open>\<^verbatim>\<open>x < y\<close>: false whenever either side is \<^verbatim>\<open>NaN\<close>.\<close>

fun number_less :: "number \<Rightarrow> number \<Rightarrow> bool" where
  "number_less (Finite a) (Finite b) = (a < b)"
| "number_less NaN y = False"
| "number_less x NaN = False"
| "number_less PosInfinity y = False"
| "number_less x NegInfinity = False"
| "number_less x PosInfinity = True"
| "number_less NegInfinity y = True"

text \<open>Rounding towards zero, as \<^verbatim>\<open>ToIntegerOrInfinity\<close> does with a finite number.\<close>

definition round_to_zero :: "rat \<Rightarrow> int" where
  "round_to_zero q = (if q < 0 then \<lceil>q\<rceil> else \<lfloor>q\<rfloor>)"

text \<open>
  The position an argument of \<^verbatim>\<open>Array.prototype.slice\<close> stands for in an array of \<open>len\<close>
  elements: \<^verbatim>\<open>NaN\<close> is 0, a negative value counts from the end, and the result is
  clamped to the array.
\<close>

fun relative_index :: "nat \<Rightarrow> number \<Rightarrow> nat" where
  "relative_index len NaN = 0"
| "relative_index len NegInfinity = 0"
| "relative_index len PosInfinity = len"
| "relative_index len (Finite q) =
     (let r = round_to_zero q
      in if r < 0 then nat (max (int len + r) 0) else nat (min r (int len)))"

text \<open>
  The delay a timer waits, in milliseconds, as the runtime (Node.js) takes it: a delay
  below 1, above 2147483647 or \<^verbatim>\<open>NaN\<close> counts as 1, any other is cut to an integer.
\<close>

fun timer_ms :: "number \<Rightarrow> nat" where
  "timer_ms (Finite q) = (if q < 1 \<or> 2147483647 < q then 1 else nat \<lfloor>q\<rfloor>)"
| "timer_ms PosInfinity = 1"
| "timer_ms NegInfinity = 1"
| "timer_ms NaN = 1"

subsection \<open>The world the backends act on\<close>

text \<open>
  The configuration read from \<^verbatim>\<open>process.env\<close>, the connection state, and the two
  external services, each with a log of the calls made and a function giving the
  outcome of the next call from the number of calls so far. \<open>now\<close> is \<^verbatim>\<open>Date.now()\<close>;
  \<open>waits\<close> records the timer delays awaited.
\<close>

record environment =
  WHATSAPP_ACCESS_TOKEN :: "string option"
  PHONE_NUMBER_ID :: "string option"
  USE_WHATSAPP_BUSINESS_API :: "string option"

record payload =
  messaging_product :: string
  to_number :: string
  payload_type :: string
  text_body :: string

record http_request =
  url :: string
  authorization :: string
  content_type :: string
  body :: payload

text \<open>
  Of the parsed response body the code reads \<^verbatim>\<open>result.error?.message\<close> and
  \<^verbatim>\<open>result.messages?.[0]?.id\<close>. \<open>Inl e\<close> stands for a body whose reading throws \<open>e\<close>:
  \<^verbatim>\<open>response.json()\<close> rejects, or the parsed value has no properties to read.
\<close>

record api_result =
  error_message :: "string option"
  first_message_id :: "string option"

record api_response =
  ok :: bool
  json :: "thrown + api_result"

text \<open>
  The calls made on the session and on \<^verbatim>\<open>MessageMedia\<close>, and how a call ends: it
  gives a value, it gives none (\<^verbatim>\<open>getChatById\<close> finding no chat), or it throws or
  rejects.
\<close>

datatype transport_call =
    GetChatById string
  | ClientSendMessage string string
  | ChatSendMessage string string
  | MediaFromFilePath string
  | ClientSendMedia string string

datatype transport_outcome = Fulfilled | NoValue | Rejected thrown

record world =
  env :: environment
  clientState :: client_state
  fetch_log :: "http_request list"
  fetch_oracle :: "nat \<Rightarrow> http_request \<Rightarrow> thrown + api_response"
  transport_log :: "transport_call list"
  transport_oracle :: "nat \<Rightarrow> transport_call \<Rightarrow> transport_outcome"
  now :: nat
  waits :: "number list"

definition fetch :: "http_request \<Rightarrow> world \<Rightarrow> (thrown + api_response) \<times> world" where
  "fetch req w =
     (fetch_oracle w (length (fetch_log w)) req, w\<lparr>fetch_log := fetch_log w @ [req]\<rparr>)"

definition transport :: "transport_call \<Rightarrow> world \<Rightarrow> transport_outcome \<times> world" where
  "transport call w =
     (transport_oracle w (length (transport_log w)) call,
      w\<lparr>transport_log := transport_log w @ [call]\<rparr>)"

text \<open>\<^verbatim>\<open>await new Promise(resolve => setTimeout(resolve, ms))\<close>\<close>

definition sleep :: "number \<Rightarrow> world \<Rightarrow> world" where
  "sleep ms w = w\<lparr>now := now w + timer_ms ms, waits := waits w @ [ms]\<rparr>"

text \<open>The decimal digits of a number, for \<^verbatim>\<open>`web_${Date.now()}`\<close>.\<close>

fun show_nat :: "nat \<Rightarrow> string" where
  "show_nat n =
     (if n < 10 then [''0123456789'' ! n]
      else show_nat (n div 10) @ [''0123456789'' ! (n mod 10)])"

declare show_nat.simps [simp del]

subsection \<open>Delivery backends\<close>

text \<open>
  Each backend is a \<^verbatim>\<open>try\<close> block, whose result is \<open>Inl e\<close> when it throws \<open>e\<close>, and
  a \<^verbatim>\<open>catch\<close> block that turns the thrown value into a result.
\<close>

definition catch_to_result :: "(thrown + message_result) \<times> world \<Rightarrow> message_result \<times> world" where
  "catch_to_result r =
     (case r of
        (Inr res, w) \<Rightarrow> (res, w)
      | (Inl e, w) \<Rightarrow>
          (\<lparr>success = False, error = Some (message_or e ''Unknown error''), messageId = None\<rparr>, w))"

definition CredentialsMissing :: string where
  "CredentialsMissing = ''WhatsApp Business API credentials not configured''"

definition businessAPI_try ::
  "contact \<Rightarrow> string \<Rightarrow> string list option \<Rightarrow> world \<Rightarrow> (thrown + message_result) \<times> world" where
  "businessAPI_try c message attachments w =
     (case (WHATSAPP_ACCESS_TOKEN (env w), PHONE_NUMBER_ID (env w)) of
        (Some accessToken, Some phoneNumberId) \<Rightarrow>
          if accessToken = [] \<or> phoneNumberId = [] then (Inl (JsError CredentialsMissing), w)
          else
            let formattedPhone = formatPhoneNumber (phone c);
                pm = personalizedMessage message c;
                pl = \<lparr>messaging_product = ''whatsapp'', to_number = formattedPhone,
                       payload_type = ''text'', text_body = pm\<rparr>;
                req = \<lparr>url = ''https://graph.facebook.com/v18.0/'' @ phoneNumberId @ ''/messages'',
                        authorization = ''Bearer '' @ accessToken,
                        content_type = ''application/json'', body = pl\<rparr>
            in (case fetch req w of
                  (Inl e, w1) \<Rightarrow> (Inl e, w1)
                | (Inr response, w1) \<Rightarrow>
                    (case json response of
                       Inl e \<Rightarrow> (Inl e, w1)
                     | Inr result \<Rightarrow>
                         if \<not> ok response
                         then (Inl (JsError (or_else (error_message result)
                                               ''Failed to send message'')), w1)
                         else (Inr \<lparr>success = True, error = None,
                                     messageId = first_message_id result\<rparr>, w1)))
      | _ \<Rightarrow> (Inl (JsError CredentialsMissing), w))"

definition sendMessageUsingBusinessAPI ::
  "contact \<Rightarrow> string \<Rightarrow> string list option \<Rightarrow> world \<Rightarrow> message_result \<times> world" where
  "sendMessageUsingBusinessAPI c message attachments w =
     catch_to_result (businessAPI_try c message attachments w)"

definition TransportNotReady :: string where
  "TransportNotReady = ''WhatsApp Web client not ready. Please initialize first.''"

text \<open>
  The loop over the attachments; an attachment is known by its file name. The guard
  \<^verbatim>\<open>!clientState.client || !clientState.isReady\<close> of the automation backend is evaluated
  left to right.
\<close>

fun send_attachments :: "string \<Rightarrow> string list \<Rightarrow> world \<Rightarrow> thrown option \<times> world" where
  "send_attachments chatId [] w = (None, w)"
| "send_attachments chatId (a # as) w =
     (case transport (MediaFromFilePath a) w of
        (Rejected e, w1) \<Rightarrow> (Some e, w1)
      | (_, w1) \<Rightarrow>
          (case transport (ClientSendMedia chatId a) w1 of
             (Rejected e, w2) \<Rightarrow> (Some e, w2)
           | (_, w2) \<Rightarrow> send_attachments chatId as w2))"

definition webAutomation_try ::
  "contact \<Rightarrow> string \<Rightarrow> string list option \<Rightarrow> world \<Rightarrow> (thrown + message_result) \<times> world" where
  "webAutomation_try c message attachments w =
     (if client (clientState w) = None then (Inl (JsError TransportNotReady), w)
      else if \<not> isReady (clientState w) then (Inl (JsError TransportNotReady), w)
      else
        let formattedPhone = formatPhoneNumber (phone c);
            chatId = formattedPhone @ ''@c.us'';
            pm = personalizedMessage message c;
            (chat, w1) = transport (GetChatById chatId) w;
            (sent, w2) = (if chat \<noteq> Fulfilled
                          then transport (ClientSendMessage chatId pm) w1
                          else transport (ChatSendMessage chatId pm) w1)
        in (case sent of
              Rejected e \<Rightarrow> (Inl e, w2)
            | _ \<Rightarrow>
                (case send_attachments chatId (case attachments of None \<Rightarrow> [] | Some as \<Rightarrow> as) w2 of
                   (Some e, w3) \<Rightarrow> (Inl e, w3)
                 | (None, w3) \<Rightarrow>
                     (Inr \<lparr>success = True, error = None,
                           messageId = Some (''web_'' @ show_nat (now w3))\<rparr>, w3))))"

definition sendMessageUsingWebAutomation ::
  "contact \<Rightarrow> string \<Rightarrow> string list option \<Rightarrow> world \<Rightarrow> message_result \<times> world" where
  "sendMessageUsingWebAutomation c message attachments w =
     catch_to_result (webAutomation_try c message attachments w)"

definition sendMessage ::
  "contact \<Rightarrow> string \<Rightarrow> string list option \<Rightarrow> world \<Rightarrow> message_result \<times> world" where
  "sendMessage c message attachments w =
     (let useBusinessAPI = (USE_WHATSAPP_BUSINESS_API (env w) = Some ''true'')
      in if useBusinessAPI then sendMessageUsingBusinessAPI c message attachments w
         else sendMessageUsingWebAutomation c message attachments w)"

subsection \<open>Batch dispatcher\<close>

text \<open>\<^verbatim>\<open>contacts.slice(start, end)\<close>\<close>

definition slice :: "'a list \<Rightarrow> number \<Rightarrow> number \<Rightarrow> 'a list" where
  "slice xs start fin =
     (let k = relative_index (length xs) start;
          f = relative_index (length xs) fin
      in take (f - k) (drop k xs))"

text \<open>
  \<^verbatim>\<open>for (let i = 0; i < contacts.length; i += batchSize) batches.push(contacts.slice(i, i + batchSize))\<close>.
  The loop need not end, so the result is optional: \<open>None\<close> is a loop that runs forever.
\<close>

partial_function (option) split_loop ::
  "contact list \<Rightarrow> number \<Rightarrow> number \<Rightarrow> contact list list \<Rightarrow> contact list list option" where
  "split_loop contacts batchSize i batches =
     (if number_less i (Finite (of_nat (length contacts)))
      then split_loop contacts batchSize (number_add i batchSize)
             (batches @ [slice contacts i (number_add i batchSize)])
      else Some batches)"

declare split_loop.simps [code]

text \<open>
  One attempt: the delay before every send but the first of the run, then
  \<^verbatim>\<open>await sendMessage(contact, message)\<close> inside the \<^verbatim>\<open>try\<close>. The two backends catch
  what they throw, so the attempt always has a result; the \<^verbatim>\<open>catch\<close> branch of the
  loop is modelled all the same.
\<close>

definition attempt_send ::
  "contact \<Rightarrow> string \<Rightarrow> world \<Rightarrow> (thrown + message_result) \<times> world" where
  "attempt_send c message w = (case sendMessage c message None w of (r, w') \<Rightarrow> (Inr r, w'))"

text \<open>
  \<^verbatim>\<open>while (attempts < maxRetries && !success) { ... }\<close> for one contact. The counter
  \<open>attempts\<close> starts at 0 and is only incremented. With an infinite \<open>maxRetries\<close> and
  sends that keep failing the loop does not end: the result is optional here too.
\<close>

partial_function (option) retry_loop ::
  "contact \<Rightarrow> string \<Rightarrow> number \<Rightarrow> number \<Rightarrow> int \<Rightarrow> bool \<Rightarrow> string \<Rightarrow> tagged_result list \<Rightarrow> world
     \<Rightarrow> (bool \<times> string \<times> tagged_result list \<times> world) option" where
  "retry_loop c message delayBetweenMessages maxRetries attempts succ lastErr results w =
     (if number_less (Finite (of_int attempts)) maxRetries \<and> \<not> succ then
        (let attempts1 = attempts + 1;
             w1 = (if length results > 0 then sleep delayBetweenMessages w else w)
         in case attempt_send c message w1 of
              (Inr result, w2) \<Rightarrow>
                (let results1 = results @ [message_result.extend result \<lparr>contactId = id_contact c\<rparr>]
                 in if success result
                    then retry_loop c message delayBetweenMessages maxRetries attempts1 True lastErr
                           results1 w2
                    else
                      retry_loop c message delayBetweenMessages maxRetries attempts1 False
                        (or_else (error result) ''Unknown error'') results1
                        (if number_less (Finite (of_int attempts1)) maxRetries
                         then sleep delayBetweenMessages w2 else w2))
            | (Inl e, w2) \<Rightarrow>
                retry_loop c message delayBetweenMessages maxRetries attempts1 False
                  (message_or e ''Unknown error'') results
                  (if number_less (Finite (of_int attempts1)) maxRetries
                   then sleep delayBetweenMessages w2 else w2))
      else Some (succ, lastErr, results, w))"

declare retry_loop.simps [code]

text \<open>The body of the loop over one batch, and that loop.\<close>

definition process_contact ::
  "string \<Rightarrow> number \<Rightarrow> number \<Rightarrow> contact \<Rightarrow> tagged_result list \<times> world
     \<Rightarrow> (tagged_result list \<times> world) option" where
  "process_contact message delayBetweenMessages maxRetries c rw =
     (case rw of (results, w) \<Rightarrow>
        (case retry_loop c message delayBetweenMessages maxRetries 0 False [] results w of
           None \<Rightarrow> None
         | Some (succ, lastErr, results1, w1) \<Rightarrow>
             Some (if \<not> succ
                   then results1 @ [\<lparr>success = False, error = Some lastErr, messageId = None,
                                     contactId = id_contact c\<rparr>]
                   else results1,
                   w1)))"

fun process_batch ::
  "string \<Rightarrow> number \<Rightarrow> number \<Rightarrow> contact list \<Rightarrow> tagged_result list \<times> world
     \<Rightarrow> (tagged_result list \<times> world) option" where
  "process_batch message delayBetweenMessages maxRetries [] rw = Some rw"
| "process_batch message delayBetweenMessages maxRetries (c # cs) rw =
     (case process_contact message delayBetweenMessages maxRetries c rw of
        None \<Rightarrow> None
      | Some rw' \<Rightarrow> process_batch message delayBetweenMessages maxRetries cs rw')"

text \<open>The loop over the batches, with the pause of 5000 ms after every batch but the last.\<close>

fun process_batches ::
  "string \<Rightarrow> number \<Rightarrow> number \<Rightarrow> contact list list \<Rightarrow> tagged_result list \<times> world
     \<Rightarrow> (tagged_result list \<times> world) option" where
  "process_batches message delayBetweenMessages maxRetries [] rw = Some rw"
| "process_batches message delayBetweenMessages maxRetries (b # bs) rw =
     (case process_batch message delayBetweenMessages maxRetries b rw of
        None \<Rightarrow> None
      | Some (results, w) \<Rightarrow>
          process_batches message delayBetweenMessages maxRetries bs
            (results, if bs \<noteq> [] then sleep (Finite 5000) w else w))"

record batch_summary =
  total :: nat
  successful :: nat
  failed :: nat

record batch_output =
  results_out :: "tagged_result list"
  summary :: batch_summary

definition sendMessagesBatch ::
  "contact list \<Rightarrow> string \<Rightarrow> number \<Rightarrow> number \<Rightarrow> number \<Rightarrow> world
     \<Rightarrow> (batch_output \<times> world) option" where
  "sendMessagesBatch contacts message batchSize delayBetweenMessages maxRetries w =
     (case split_loop contacts batchSize (Finite 0) [] of
        None \<Rightarrow> None
      | Some batches \<Rightarrow>
          (case process_batches message delayBetweenMessages maxRetries batches ([], w) of
             None \<Rightarrow> None
           | Some (results, w') \<Rightarrow>
               Some (\<lparr>results_out = results,
                      summary = \<lparr>total = length contacts,
                                 successful = length (filter (\<lambda>r. success r) results),
                                 failed = length (filter (\<lambda>r. \<not> success r) results)\<rparr>\<rparr>,
                     w')))"

text \<open>The default arguments of the dispatcher.\<close>

definition default_batchSize :: number where "default_batchSize = Finite 50"
definition default_delayBetweenMessages :: number where "default_delayBetweenMessages = Finite 2000"
definition default_maxRetries :: number where "default_maxRetries = Finite 3"

subsection \<open>Runs of the connection manager\<close>

text \<open>
  The manager together with what the environment holds of it: the sessions created so
  far (each has the handlers registered on it), the number of startup timers armed and
  neither cleared nor fired, and the number of initialiser calls suspended while their
  session opens. A session event needs a session to emit it, a timer callback an armed
  timer, and the settling of a session a suspended call.
\<close>

record manager =
  state :: client_state
  sessions :: "client_handle list"
  timers :: nat
  suspended :: nat

definition manager_initial :: manager where
  "manager_initial = \<lparr>state = clientState_initial, sessions = [], timers = 0, suspended = 0\<rparr>"

datatype action =
    CallInitialize init_outcomes
  | SessionSettles init_outcomes
  | CallDisconnect "thrown option"
  | CallResetAttempts
  | EvQr string
  | EvReady
  | EvAuthenticated
  | EvAuthFailure string
  | EvDisconnected string
  | TimerFires

fun account :: "effect \<Rightarrow> manager \<Rightarrow> manager" where
  "account (CreateSession h) m = m\<lparr>sessions := h # sessions m\<rparr>"
| "account ArmTimeout m = m\<lparr>timers := timers m + 1\<rparr>"
| "account ClearTimeout m = m\<lparr>timers := timers m - 1\<rparr>"
| "account (Destroy h) m = m"
| "account (OpenSession h) m = m"
| "account ScheduleCleanup m = m"
| "account ScheduleReconnect m = m"

fun step :: "action \<Rightarrow> manager \<Rightarrow> manager option" where
  "step (CallInitialize oc) m =
     (case initialize_start oc (state m) of
        (Inl r, fx, s) \<Rightarrow> Some (fold account fx (m\<lparr>state := s\<rparr>))
      | (Inr u, fx, s) \<Rightarrow> Some (fold account fx (m\<lparr>state := s, suspended := suspended m + 1\<rparr>)))"
| "step (SessionSettles oc) m =
     (if suspended m = 0 then None
      else case initialize_settle oc (state m) of
             (r, fx, s) \<Rightarrow> Some (fold account fx (m\<lparr>state := s, suspended := suspended m - 1\<rparr>)))"
| "step (CallDisconnect d) m =
     (case disconnectWhatsAppWeb d (state m) of (fx, s) \<Rightarrow> Some (m\<lparr>state := s\<rparr>))"
| "step CallResetAttempts m = Some (m\<lparr>state := resetConnectionAttempts (state m)\<rparr>)"
| "step (EvQr qr) m =
     (if sessions m = [] then None else Some (m\<lparr>state := on_qr qr (state m)\<rparr>))"
| "step EvReady m =
     (if sessions m = [] then None else Some (m\<lparr>state := on_ready (state m)\<rparr>))"
| "step EvAuthenticated m =
     (if sessions m = [] then None else Some (m\<lparr>state := on_authenticated (state m)\<rparr>))"
| "step (EvAuthFailure msg) m =
     (if sessions m = [] then None
      else case on_auth_failure msg (state m) of (fx, s) \<Rightarrow> Some (m\<lparr>state := s\<rparr>))"
| "step (EvDisconnected reason) m =
     (if sessions m = [] then None
      else case on_disconnected reason (state m) of (fx, s) \<Rightarrow> Some (m\<lparr>state := s\<rparr>))"
| "step TimerFires m =
     (if timers m = 0 then None
      else case on_timeout (state m) of (fx, s) \<Rightarrow> Some (m\<lparr>state := s, timers := timers m - 1\<rparr>))"

fun run :: "action list \<Rightarrow> manager \<Rightarrow> manager option" where
  "run [] m = Some m"
| "run (a # as) m = (case step a m of None \<Rightarrow> None | Some m' \<Rightarrow> run as m')"

text \<open>
  The two flags exclude each other, and the ready flag is set only while a session
  handle is held.
\<close>

definition flags_consistent :: "client_state \<Rightarrow> bool" where
  "flags_consistent s =
     (\<not> (isReady s \<and> isConnecting s) \<and> \<not> (isReady s \<and> client s = None))"

subsection \<open>Concrete states, worlds and contacts\<close>

text \<open>The state after three attempts whose session failed to open.\<close>

definition exhausted_state :: client_state where
  "exhausted_state =
     \<lparr>client = None, isReady = False, isConnecting = False, currentQR = None,
      lastError = Some ''Failed to launch the browser process'', connectionAttempts = 3\<rparr>"

definition launch_fails :: init_outcomes where
  "launch_fails =
     \<lparr>destroy_old = None, session_setup = None, fresh = 1,
      open_session = Some (JsError ''Failed to launch the browser process''),
      destroy_failed = None\<rparr>"

definition session_opens :: "client_handle \<Rightarrow> init_outcomes" where
  "session_opens h =
     \<lparr>destroy_old = None, session_setup = None, fresh = h, open_session = None,
      destroy_failed = None\<rparr>"

text \<open>A world in which every external call fails.\<close>

definition no_service_world :: "environment \<Rightarrow> client_state \<Rightarrow> world" where
  "no_service_world e s =
     \<lparr>env = e, clientState = s, fetch_log = [],
      fetch_oracle = (\<lambda>n req. Inl (JsError ''fetch failed'')),
      transport_log = [],
      transport_oracle = (\<lambda>n call. Rejected (JsError ''Evaluation failed'')),
      now = 0, waits = []\<rparr>"


definition api_env_without_token :: environment where
  "api_env_without_token =
     \<lparr>WHATSAPP_ACCESS_TOKEN = None, PHONE_NUMBER_ID = Some ''1234567890'',
      USE_WHATSAPP_BUSINESS_API = Some ''true''\<rparr>"

definition ana :: contact where
  "ana = \<lparr>id_contact = ''c1'', phone = ''555-123-4567'', name = Some ''Ana'',
          customMessage = None\<rparr>"

definition cash :: contact where
  "cash = \<lparr>id_contact = ''c2'', phone = ''5551234567'', name = Some ''Ca$$h'',
           customMessage = None\<rparr>"

definition anonymous :: contact where
  "anonymous = \<lparr>id_contact = ''c3'', phone = ''+44 20 7946 0958'', name = None,
                customMessage = None\<rparr>"

definition failure :: "string \<Rightarrow> message_result" where
  "failure msg = \<lparr>success = False, error = Some msg, messageId = None\<rparr>"

definition tagged_failure :: "string \<Rightarrow> string \<Rightarrow> tagged_result" where
  "tagged_failure msg cid =
     \<lparr>success = False, error = Some msg, messageId = None, contactId = cid\<rparr>"

text \<open>\<^verbatim>\<open>!x\<close> for an optional string read from the configuration.\<close>

definition unset :: "string option \<Rightarrow> bool" where
  "unset x = (x = None \<or> x = Some [])"

section \<open>Phone and message normaliser: properties\<close>

lemma strip_non_digits_filter: "strip_non_digits ph = filter is_digit ph"
  by (induction ph) simp_all

text \<open>
  Claim C6. Phone formatting removes every character that is not a decimal digit and
  keeps the digits in order. When exactly ten digits remain, the result is the digit
  \<open>1\<close> followed by them, eleven digits in all; otherwise the result is the remaining
  digits, unchanged.
\<close>

theorem formatPhoneNumber_strips_and_prefixes:
  "(\<forall>c \<in> set (formatPhoneNumber ph). is_digit c) \<and>
   (length (filter is_digit ph) = 10 \<longrightarrow>
      formatPhoneNumber ph = CHR ''1'' # filter is_digit ph \<and>
      length (formatPhoneNumber ph) = 11) \<and>
   (length (filter is_digit ph) \<noteq> 10 \<longrightarrow> formatPhoneNumber ph = filter is_digit ph)"
  by (simp add: formatPhoneNumber_def strip_non_digits_filter Let_def is_digit_def)

theorem formatPhoneNumber_strips_and_prefixes_witness:
  "length (filter is_digit ''555-123-4567'') = 10 \<and>
   formatPhoneNumber ''555-123-4567'' = ''15551234567'' \<and>
   length (filter is_digit ''+44 20 7946 0958'') \<noteq> 10 \<and>
   formatPhoneNumber ''+44 20 7946 0958'' = ''442079460958''"
  using formatPhoneNumber_strips_and_prefixes [of "''555-123-4567''"]
        formatPhoneNumber_strips_and_prefixes [of "''+44 20 7946 0958''"]
  by (simp add: is_digit_def)

text \<open>
  A replacement text without a dollar sign is inserted as it is, so for such a name the
  code computes the literal substitution.
\<close>

lemma getSubstitution_no_dollar:
  "CHR ''$'' \<notin> set repl \<Longrightarrow> getSubstitution m p f repl = repl"
  by (induction m p f repl rule: getSubstitution.induct) auto

lemma replace_Name_no_dollar:
  "CHR ''$'' \<notin> set repl \<Longrightarrow> replace_Name repl p s = substitute_literally repl s"
  by (induction repl p s rule: replace_Name.induct) (simp_all add: getSubstitution_no_dollar)

lemma personalized_with_name:
  "personalizedMessage ''Hi [Name], welcome!'' ana = ''Hi Ana, welcome!''"
  by (simp add: personalizedMessage_def ana_def)

lemma personalized_without_name:
  "personalizedMessage ''Hi [Name], welcome!'' anonymous = ''Hi there, welcome!''"
  by (simp add: personalizedMessage_def anonymous_def)

text \<open>
  Claim C7. Personalisation is to put the contact's display name in place of every
  occurrence of the placeholder. For the display name \<^verbatim>\<open>Ca$$h\<close> the code does not: the
  replacement text is expanded by \<^verbatim>\<open>String.prototype.replace\<close>, the two dollar signs
  become one, and the message reads \<^verbatim>\<open>Hi Ca$h, welcome!\<close> where the literal substitution
  gives \<^verbatim>\<open>Hi Ca$$h, welcome!\<close>.
\<close>

theorem personalizedMessage_dollar_name:
  "personalizedMessage ''Hi [Name], welcome!'' cash = ''Hi Ca$h, welcome!'' \<and>
   substitute_literally (or_else (name cash) ''there'') ''Hi [Name], welcome!''
     = ''Hi Ca$$h, welcome!''"
  by (simp add: personalizedMessage_def cash_def)

section \<open>Connection manager: properties\<close>

lemma exhausted_state_reached:
  "run [CallInitialize launch_fails, SessionSettles launch_fails,
        CallInitialize launch_fails, SessionSettles launch_fails,
        CallInitialize launch_fails, SessionSettles launch_fails] manager_initial
   = Some \<lparr>state = exhausted_state, sessions = [1, 1, 1], timers = 3, suspended = 0\<rparr>"
  by (simp add: manager_initial_def clientState_initial_def launch_fails_def
      exhausted_state_def initialize_start_def initialize_settle_def initialize_catch_def
      MAX_CONNECTION_ATTEMPTS_def Let_def)

text \<open>
  Claim C5. In every state (so in every reachable one) whose attempt counter is at least
  \<open>MAX_CONNECTION_ATTEMPTS\<close> and which is neither connecting nor ready, the initialiser
  fails with the exhaustion error, has no effect on the outside (no session is created or
  opened) and leaves the state as it was, so a further call fails in the same way.
  After \<open>resetConnectionAttempts\<close> the counter is 0 and the initialiser goes ahead, taking
  the counter to 1. The handler of the ready event sets the counter to 0.
\<close>

theorem initialize_exhausted:
  "connectionAttempts s \<ge> MAX_CONNECTION_ATTEMPTS \<and> \<not> isConnecting s \<and> \<not> isReady s \<longrightarrow>
     initializeWhatsAppWebClient oc s = (Inl ConnectionExhausted, [], s) \<and>
     initializeWhatsAppWebClient oc2 (snd (snd (initializeWhatsAppWebClient oc s)))
       = (Inl ConnectionExhausted, [], s) \<and>
     connectionAttempts (resetConnectionAttempts s) = 0 \<and>
     connectionAttempts
       (snd (snd (initializeWhatsAppWebClient oc3 (resetConnectionAttempts s)))) = 1 \<and>
     connectionAttempts (on_ready s') = 0"
  by (auto simp add: initializeWhatsAppWebClient_def initialize_start_def
      initialize_settle_def initialize_catch_def resetConnectionAttempts_def on_ready_def
      MAX_CONNECTION_ATTEMPTS_def Let_def split: option.splits prod.splits sum.splits)

theorem initialize_exhausted_witness:
  "connectionAttempts exhausted_state \<ge> MAX_CONNECTION_ATTEMPTS \<and>
   \<not> isConnecting exhausted_state \<and> \<not> isReady exhausted_state \<and>
   initializeWhatsAppWebClient (session_opens 4) exhausted_state
     = (Inl ConnectionExhausted, [], exhausted_state) \<and>
   initializeWhatsAppWebClient (session_opens 4) (resetConnectionAttempts exhausted_state)
     = (Inr (), [CreateSession 4, ArmTimeout, OpenSession 4, ClearTimeout],
        \<lparr>client = Some 4, isReady = False, isConnecting = True, currentQR = None,
         lastError = None, connectionAttempts = 1\<rparr>)"
  using initialize_exhausted
    [of exhausted_state "session_opens 4" "session_opens 4" "session_opens 4" exhausted_state]
  by (simp add: exhausted_state_def session_opens_def MAX_CONNECTION_ATTEMPTS_def
      initializeWhatsAppWebClient_def initialize_start_def initialize_settle_def
      resetConnectionAttempts_def Let_def)

text \<open>
  Claim C8, as stated, fails: in the state reached after three failed attempts no session
  handle is held, and \<open>disconnectWhatsAppWeb\<close> leaves the last error and the attempt
  counter as they are.
\<close>

theorem disconnect_without_session_counterexample:
  "snd (disconnectWhatsAppWeb None exhausted_state) \<noteq> clientState_initial"
  by (simp add: disconnectWhatsAppWeb_def exhausted_state_def clientState_initial_def)

text \<open>
  Claim C8, amended. In every state that holds a session handle, disconnecting requests
  the teardown of that session, whatever the teardown throws, and resets every field to
  the initial disconnected snapshot, the attempt counter included. In a state that holds
  no session handle it does nothing and changes no field.
\<close>

theorem disconnect_resets_held_session:
  "(client s = Some h \<longrightarrow> disconnectWhatsAppWeb d s = ([Destroy h], clientState_initial)) \<and>
   (client s = None \<longrightarrow> disconnectWhatsAppWeb d s = ([], s))"
  by (cases d) (simp_all add: disconnectWhatsAppWeb_def clientState_initial_def)

theorem disconnect_resets_held_session_witness:
  "disconnectWhatsAppWeb (Some (JsError ''Target closed''))
     \<lparr>client = Some 7, isReady = True, isConnecting = False, currentQR = None,
      lastError = Some ''old'', connectionAttempts = 2\<rparr> = ([Destroy 7], clientState_initial) \<and>
   disconnectWhatsAppWeb None exhausted_state = ([], exhausted_state)"
  using disconnect_resets_held_session
    [of "\<lparr>client = Some 7, isReady = True, isConnecting = False, currentQR = None,
          lastError = Some ''old'', connectionAttempts = 2\<rparr>" 7 "Some (JsError ''Target closed'')"]
    disconnect_resets_held_session [of exhausted_state 0 None]
  by (simp add: exhausted_state_def)

text \<open>
  Every step of a run keeps the flags consistent, but for a ready event that arrives
  while no session handle is held.
\<close>

lemma initialize_start_consistent:
  "flags_consistent s \<Longrightarrow> initialize_start oc s = (r, fx, s') \<Longrightarrow> flags_consistent s'"
  by (auto simp add: initialize_start_def initialize_catch_def flags_consistent_def Let_def
      split: option.splits if_splits prod.splits)

lemma initialize_settle_consistent:
  "flags_consistent s \<Longrightarrow> initialize_settle oc s = (r, fx, s') \<Longrightarrow> flags_consistent s'"
  by (auto simp add: initialize_settle_def initialize_catch_def flags_consistent_def Let_def
      split: option.splits if_splits prod.splits)

lemma fold_account_state: "state (fold account fx m) = state m"
proof (induction fx arbitrary: m)
  case Nil
  show ?case by simp
next
  case (Cons x fx)
  then show ?case by (cases x) simp_all
qed

lemma step_consistent:
  assumes "flags_consistent (state m)" and "step a m = Some m'"
    and "a = EvReady \<Longrightarrow> client (state m) \<noteq> None"
  shows "flags_consistent (state m')"
proof (cases a)
  case (CallInitialize oc)
  with assms(1,2) show ?thesis
    by (auto simp add: fold_account_state split: prod.splits sum.splits
        dest: initialize_start_consistent)
next
  case (SessionSettles oc)
  with assms(1,2) show ?thesis
    by (auto simp add: fold_account_state split: prod.splits if_splits
        dest: initialize_settle_consistent)
next
  case EvReady
  with assms show ?thesis
    by (auto simp add: on_ready_def flags_consistent_def split: if_splits)
qed (use assms(1,2) in \<open>auto simp add: flags_consistent_def disconnectWhatsAppWeb_def
      resetConnectionAttempts_def on_qr_def on_authenticated_def on_auth_failure_def
      on_disconnected_def on_timeout_def Let_def split: if_splits option.splits\<close>)

text \<open>
  Claim C9. The ready flag and the connecting flag are meant never to hold together. The
  code lets them: the initialiser is called and its session starts to open; the startup
  timer fires, which clears the connecting flag and the session handle and asks for the
  teardown without waiting for it; the session, whose handlers are still registered,
  reports ready; the initialiser is called again. It is not stopped by the ready flag,
  no handle being held, and it resets the ready flag only when it finds a handle to tear
  down: the run ends with both flags set.
\<close>

theorem ready_and_connecting_run:
  "run [CallInitialize (session_opens 1), TimerFires, EvReady, CallInitialize (session_opens 2)]
     manager_initial
   = Some \<lparr>state = \<lparr>client = Some 2, isReady = True, isConnecting = True, currentQR = None,
                    lastError = None, connectionAttempts = 1\<rparr>,
           sessions = [2, 1], timers = 1, suspended = 2\<rparr>"
  by (simp add: manager_initial_def clientState_initial_def session_opens_def
      initialize_start_def on_timeout_def on_ready_def MAX_CONNECTION_ATTEMPTS_def Let_def)

section \<open>Delivery backends: properties\<close>





text \<open>
  Claim C4. When the business API is selected and the access token or the phone-number
  identifier is not set (absent, or empty), the send operation returns the failure
  result with the credentials message and leaves the world as it was: no request is
  added to the log of HTTP posts.
\<close>

theorem missing_credentials_no_post:
  "USE_WHATSAPP_BUSINESS_API (env w) = Some ''true'' \<Longrightarrow>
   unset (WHATSAPP_ACCESS_TOKEN (env w)) \<or> unset (PHONE_NUMBER_ID (env w)) \<Longrightarrow>
   sendMessage c m a w
     = (failure ''WhatsApp Business API credentials not configured'', w) \<and>
   fetch_log (snd (sendMessage c m a w)) = fetch_log w"
  by (auto simp add: sendMessage_def sendMessageUsingBusinessAPI_def businessAPI_try_def
      catch_to_result_def failure_def CredentialsMissing_def unset_def split: option.splits)

theorem missing_credentials_no_post_witness:
  "USE_WHATSAPP_BUSINESS_API (env (no_service_world api_env_without_token clientState_initial))
     = Some ''true'' \<and>
   unset (WHATSAPP_ACCESS_TOKEN (env (no_service_world api_env_without_token clientState_initial))) \<and>
   sendMessage ana ''Hi [Name]'' None (no_service_world api_env_without_token clientState_initial)
     = (failure ''WhatsApp Business API credentials not configured'',
        no_service_world api_env_without_token clientState_initial) \<and>
   fetch_log (snd (sendMessage ana ''Hi [Name]'' None
                (no_service_world api_env_without_token clientState_initial))) = []"
  using missing_credentials_no_post
    [of "no_service_world api_env_without_token clientState_initial" ana "''Hi [Name]''" None]
  by (simp add: no_service_world_def api_env_without_token_def unset_def)

section \<open>Batch dispatcher: properties\<close>

lemma to_zero_of_int: "round_to_zero (of_int k) = k"
  by (simp add: round_to_zero_def)

lemma slice_window:
  assumes "0 \<le> i" "i < int (length xs)" "1 \<le> b"
  shows "slice xs (Finite (of_int i)) (number_add (Finite (of_int i)) (Finite (of_int b)))
         = take (nat b) (drop (nat i) xs)"
proof -
  have k: "relative_index (length xs) (Finite (of_int i)) = nat i"
    using assms by (simp add: to_zero_of_int Let_def min_def)
  have "number_add (Finite (of_int i)) (Finite (of_int b)) = Finite (of_int (i + b))"
    by simp
  then have f: "relative_index (length xs) (number_add (Finite (of_int i)) (Finite (of_int b)))
             = nat (min (i + b) (int (length xs)))"
    using assms by (simp only: relative_index.simps to_zero_of_int Let_def) simp
  show ?thesis
  proof (cases "i + b \<le> int (length xs)")
    case True
    then have "nat (min (i + b) (int (length xs))) - nat i = nat b"
      using assms by (simp add: min_def)
    then show ?thesis unfolding slice_def Let_def k f by simp
  next
    case False
    then have "nat (min (i + b) (int (length xs))) - nat i = length xs - nat i"
      using assms by (simp add: min_def)
    moreover have "length xs - nat i \<le> nat b" using False assms by simp
    ultimately show ?thesis unfolding slice_def Let_def k f by simp
  qed
qed

text \<open>
  With an integer batch size of at least 1 the partition loop returns, and what it
  appends to the batches is a partition of the contacts from index \<open>i\<close> on.
\<close>

lemma split_loop_returns:
  assumes "1 \<le> b"
  shows "0 \<le> i \<Longrightarrow>
    \<exists>bs. split_loop cs (Finite (of_int b)) (Finite (of_int i)) acc = Some (acc @ bs) \<and>
         concat bs = drop (nat i) cs \<and>
         (\<forall>x \<in> set bs. x \<noteq> [] \<and> int (length x) \<le> b)"
proof (induction "nat (int (length cs) - i)" arbitrary: i acc rule: less_induct)
  case less
  have "(of_nat (length cs) :: rat) = of_int (int (length cs))" by simp
  then have cond:
    "number_less (Finite (of_int i)) (Finite (of_nat (length cs))) = (i < int (length cs))"
    by (simp only: number_less.simps of_int_less_iff)
  show ?case
  proof (cases "i < int (length cs)")
    case False
    then have "split_loop cs (Finite (of_int b)) (Finite (of_int i)) acc = Some (acc @ [])"
      by (subst split_loop.simps) (simp only: cond if_False append_Nil2)
    moreover from False less.prems have "drop (nat i) cs = []" by simp
    ultimately show ?thesis by (intro exI [of _ "[]"]) simp
  next
    case True
    let ?sl = "slice cs (Finite (of_int i)) (number_add (Finite (of_int i)) (Finite (of_int b)))"
    have sl: "?sl = take (nat b) (drop (nat i) cs)"
      using less.prems True assms by (rule slice_window)
    have dec: "nat (int (length cs) - (i + b)) < nat (int (length cs) - i)"
      using True assms by simp
    have "0 \<le> i + b" using less.prems assms by simp
    from less.hyps [OF dec this, of "acc @ [?sl]"]
    obtain bs where bs:
      "split_loop cs (Finite (of_int b)) (Finite (of_int (i + b))) (acc @ [?sl])
         = Some ((acc @ [?sl]) @ bs)"
      "concat bs = drop (nat (i + b)) cs" "\<forall>x \<in> set bs. x \<noteq> [] \<and> int (length x) \<le> b"
      by blast
    have next_i: "number_add (Finite (of_int i)) (Finite (of_int b)) = Finite (of_int (i + b))"
      by simp
    have unfold: "split_loop cs (Finite (of_int b)) (Finite (of_int i)) acc
        = split_loop cs (Finite (of_int b)) (Finite (of_int (i + b))) (acc @ [?sl])"
      using True by (subst split_loop.simps) (simp only: cond if_True next_i)
    have "nat (i + b) = nat b + nat i" using less.prems assms by simp
    then have dd: "drop (nat (i + b)) cs = drop (nat b) (drop (nat i) cs)" by simp
    have "concat (?sl # bs) = drop (nat i) cs"
      by (simp only: concat.simps bs(2) sl dd append_take_drop_id)
    moreover have "?sl \<noteq> []" using sl True less.prems assms by simp
    moreover have "int (length ?sl) \<le> b" using sl assms by simp
    moreover have "split_loop cs (Finite (of_int b)) (Finite (of_int i)) acc
        = Some (acc @ (?sl # bs))"
      using unfold bs(1) by simp
    ultimately show ?thesis using bs(3) by (intro exI [of _ "?sl # bs"]) simp
  qed
qed

text \<open>
  With a batch size of 0 or less the index never reaches the length of the list: no
  run of the loop from an index below the length returns.
\<close>

lemma split_loop_never_returns:
  assumes "split_loop cs b i acc = Some bs"
  shows "\<not> (\<exists>q x. b = Finite q \<and> q \<le> 0 \<and> i = Finite x \<and> x < of_nat (length cs))"
proof (rule split_loop.raw_induct
    [where P = "\<lambda>cs b i acc y.
       \<not> (\<exists>q x. b = Finite q \<and> q \<le> 0 \<and> i = Finite x \<and> x < of_nat (length cs))",
     OF _ assms])
  fix f :: "contact list \<Rightarrow> number \<Rightarrow> number \<Rightarrow> contact list list \<Rightarrow> contact list list option"
  fix cs b i acc y
  assume IH: "\<And>cs b i acc y. f cs b i acc = Some y \<Longrightarrow>
      \<not> (\<exists>q x. b = Finite q \<and> q \<le> 0 \<and> i = Finite x \<and> x < of_nat (length cs))"
    and eq: "(if number_less i (Finite (of_nat (length cs)))
              then f cs b (number_add i b) (acc @ [slice cs i (number_add i b)])
              else Some acc) = Some y"
  show "\<not> (\<exists>q x. b = Finite q \<and> q \<le> 0 \<and> i = Finite x \<and> x < of_nat (length cs))"
  proof
    assume "\<exists>q x. b = Finite q \<and> q \<le> 0 \<and> i = Finite x \<and> x < of_nat (length cs)"
    then obtain q x where a: "b = Finite q" "q \<le> 0" "i = Finite x" "x < of_nat (length cs)"
      by blast
    with eq have "f cs b (Finite (x + q)) (acc @ [slice cs i (number_add i b)]) = Some y"
      by simp
    from IH [OF this] a show False by simp
  qed
qed

lemma split_loop_diverges:
  "q \<le> 0 \<Longrightarrow> cs \<noteq> [] \<Longrightarrow> split_loop cs (Finite q) (Finite 0) acc = None"
  using split_loop_never_returns [of cs "Finite q" "Finite 0" acc]
  by (cases "split_loop cs (Finite q) (Finite 0) acc") auto

text \<open>With a finite integer retry bound the retry loop returns, whatever the sends do.\<close>

lemma retry_loop_returns:
  "retry_loop c m d (Finite (of_int r)) attempts succ lastErr results w \<noteq> None"
proof (induction "nat (r - attempts)" arbitrary: attempts succ lastErr results w rule: less_induct)
  case less
  have cond: "number_less (Finite (of_int attempts)) (Finite (of_int r)) = (attempts < r)"
    by simp
  show ?case
  proof (cases "attempts < r \<and> \<not> succ")
    case False
    then show ?thesis
      by (subst retry_loop.simps) (auto simp only: cond if_False)
  next
    case True
    then have dec: "nat (r - (attempts + 1)) < nat (r - attempts)" by simp
    note IH = less.hyps [OF dec]
    obtain x w2 where sent:
      "attempt_send c m (if length results > 0 then sleep d w else w) = (x, w2)"
      by (cases "attempt_send c m (if length results > 0 then sleep d w else w)")
    show ?thesis
    proof (cases x)
      case (Inl e)
      with True sent show ?thesis
        by (subst retry_loop.simps) (simp only: cond if_True Let_def prod.case sum.case IH
            not_False_eq_True conj_absorb simp_thms)
    next
      case (Inr result)
      with True sent show ?thesis
        by (subst retry_loop.simps) (simp only: cond if_True Let_def prod.case sum.case IH
            not_False_eq_True simp_thms if_cancel split: if_splits)
    qed
  qed
qed

lemma process_contact_returns:
  "process_contact m d (Finite (of_int r)) c rw \<noteq> None"
  using retry_loop_returns [of c m d r 0 False "[]" "fst rw" "snd rw"]
  by (auto simp add: process_contact_def split: prod.splits)

lemma process_batch_returns:
  "process_batch m d (Finite (of_int r)) cs rw \<noteq> None"
proof (induction cs arbitrary: rw)
  case Nil
  show ?case by simp
next
  case (Cons c cs)
  from process_contact_returns [of m d r c rw] obtain rw' where
    "process_contact m d (Finite (of_int r)) c rw = Some rw'" by blast
  with Cons [of rw'] show ?case by simp
qed

lemma process_batches_returns:
  "process_batches m d (Finite (of_int r)) bs rw \<noteq> None"
proof (induction bs arbitrary: rw)
  case Nil
  show ?case by simp
next
  case (Cons b bs)
  from process_batch_returns [of m d r b rw] obtain results w where
    "process_batch m d (Finite (of_int r)) b rw = Some (results, w)" by force
  with Cons [of "(results, if bs \<noteq> [] then sleep (Finite 5000) w else w)"] show ?case by simp
qed


text \<open>
  With an infinite retry bound, the business API selected and no access token, every
  attempt fails and the retry loop never returns.
\<close>

lemma env_sleep: "env (sleep d w) = env w"
  by (simp add: sleep_def)

lemma attempt_without_token:
  "env w = api_env_without_token \<Longrightarrow>
   attempt_send c m w = (Inr (failure CredentialsMissing), w)"
  by (simp add: attempt_send_def sendMessage_def sendMessageUsingBusinessAPI_def
      businessAPI_try_def catch_to_result_def api_env_without_token_def failure_def)

lemma retry_loop_never_returns:
  assumes "retry_loop c m d mr attempts succ lastErr results w = Some y"
  shows "\<not> (mr = PosInfinity \<and> \<not> succ \<and> env w = api_env_without_token)"
proof (rule retry_loop.raw_induct
    [where P = "\<lambda>c m d mr attempts succ lastErr results w y.
       \<not> (mr = PosInfinity \<and> \<not> succ \<and> env w = api_env_without_token)",
     OF _ assms])
  fix f :: "contact \<Rightarrow> string \<Rightarrow> number \<Rightarrow> number \<Rightarrow> int \<Rightarrow> bool \<Rightarrow> string
              \<Rightarrow> tagged_result list \<Rightarrow> world
              \<Rightarrow> (bool \<times> string \<times> tagged_result list \<times> world) option"
  fix c m d mr attempts succ lastErr results w y
  assume IH: "\<And>c m d mr attempts succ lastErr results w y.
      f c m d mr attempts succ lastErr results w = Some y \<Longrightarrow>
      \<not> (mr = PosInfinity \<and> \<not> succ \<and> env w = api_env_without_token)"
    and eq: "(if number_less (Finite (of_int attempts)) mr \<and> \<not> succ then
        (let attempts1 = attempts + 1;
             w1 = (if length results > 0 then sleep d w else w)
         in case attempt_send c m w1 of
              (Inr result, w2) \<Rightarrow>
                (let results1 = results @ [message_result.extend result \<lparr>contactId = id_contact c\<rparr>]
                 in if success result
                    then f c m d mr attempts1 True lastErr results1 w2
                    else
                      f c m d mr attempts1 False
                        (or_else (error result) ''Unknown error'') results1
                        (if number_less (Finite (of_int attempts1)) mr
                         then sleep d w2 else w2))
            | (Inl e, w2) \<Rightarrow>
                f c m d mr attempts1 False
                  (message_or e ''Unknown error'') results
                  (if number_less (Finite (of_int attempts1)) mr
                   then sleep d w2 else w2))
      else Some (succ, lastErr, results, w)) = Some y"
  show "\<not> (mr = PosInfinity \<and> \<not> succ \<and> env w = api_env_without_token)"
  proof
    assume a: "mr = PosInfinity \<and> \<not> succ \<and> env w = api_env_without_token"
    let ?w1 = "if length results > 0 then sleep d w else w"
    from a have e1: "env ?w1 = api_env_without_token" by (simp add: env_sleep)
    have sent: "attempt_send c m ?w1 = (Inr (failure CredentialsMissing), ?w1)"
      using e1 by (rule attempt_without_token)
    from eq a sent
    have "f c m d mr (attempts + 1) False
            (or_else (error (failure CredentialsMissing)) ''Unknown error'')
            (results @ [message_result.extend (failure CredentialsMissing)
                          \<lparr>contactId = id_contact c\<rparr>])
            (sleep d ?w1) = Some y"
      by (simp add: Let_def failure_def del: of_int_add)
    from IH [OF this] a e1 show False by (simp add: env_sleep)
  qed
qed

lemma retry_loop_diverges:
  "env w = api_env_without_token \<Longrightarrow>
   retry_loop c m d PosInfinity attempts False lastErr results w = None"
  using retry_loop_never_returns [of c m d PosInfinity attempts False lastErr results w]
  by (cases "retry_loop c m d PosInfinity attempts False lastErr results w") auto

text \<open>
  Claim C10, amended. When the batch size is an integer of at least 1 and the retry
  bound is an integer (both of magnitude up to \<open>MAX_SAFE_INTEGER\<close>, where the language's
  numbers are exact), the dispatcher returns for every contact list, message, delay and
  world, and its partition loop yields batches that are nonempty, hold at most
  \<open>batchSize\<close> contacts each and, put end to end, give the contact list in its order.
  With a batch size of 0 or less and a nonempty contact list the partition loop never
  ends, and the dispatcher returns nothing.
\<close>

theorem sendMessagesBatch_terminates_for_integers:
  "(1 \<le> b \<and> b \<le> MAX_SAFE_INTEGER \<and> \<bar>r\<bar> \<le> MAX_SAFE_INTEGER \<longrightarrow>
      (\<exists>out w'. sendMessagesBatch cs m (Finite (of_int b)) d (Finite (of_int r)) w
                   = Some (out, w')) \<and>
      (\<exists>bs. split_loop cs (Finite (of_int b)) (Finite 0) [] = Some bs \<and> concat bs = cs \<and>
            (\<forall>x \<in> set bs. x \<noteq> [] \<and> int (length x) \<le> b))) \<and>
   (q \<le> 0 \<and> cs \<noteq> [] \<longrightarrow> sendMessagesBatch cs m (Finite q) d maxRetries w = None)"
proof (intro conjI impI)
  assume "1 \<le> b \<and> b \<le> MAX_SAFE_INTEGER \<and> \<bar>r\<bar> \<le> MAX_SAFE_INTEGER"
  then have b: "1 \<le> b" by simp
  from split_loop_returns [OF b, of 0 cs "[]"]
  obtain bs where bs: "split_loop cs (Finite (of_int b)) (Finite 0) [] = Some bs"
    "concat bs = cs" "\<forall>x \<in> set bs. x \<noteq> [] \<and> int (length x) \<le> b"
    by auto
  then show "\<exists>bs. split_loop cs (Finite (of_int b)) (Finite 0) [] = Some bs \<and> concat bs = cs \<and>
            (\<forall>x \<in> set bs. x \<noteq> [] \<and> int (length x) \<le> b)"
    by blast
  from process_batches_returns [of m d r bs "([], w)"]
  obtain results w' where "process_batches m d (Finite (of_int r)) bs ([], w) = Some (results, w')"
    by force
  with bs(1)
  show "\<exists>out w'. sendMessagesBatch cs m (Finite (of_int b)) d (Finite (of_int r)) w
                   = Some (out, w')"
    by (simp add: sendMessagesBatch_def)
next
  assume "q \<le> 0 \<and> cs \<noteq> []"
  then have "split_loop cs (Finite q) (Finite 0) [] = None"
    by (intro split_loop_diverges) simp_all
  then show "sendMessagesBatch cs m (Finite q) d maxRetries w = None"
    by (simp add: sendMessagesBatch_def)
qed

theorem sendMessagesBatch_terminates_for_integers_witness:
  "split_loop [ana, cash, anonymous] (Finite 2) (Finite 0) [] = Some [[ana, cash], [anonymous]] \<and>
   sendMessagesBatch [ana, cash, anonymous] ''Hi [Name]'' (Finite 2) (Finite 2000) (Finite 3)
       (no_service_world api_env_without_token clientState_initial) \<noteq> None \<and>
   sendMessagesBatch [ana] ''Hi [Name]'' (Finite 0) (Finite 2000) (Finite 3)
       (no_service_world api_env_without_token clientState_initial) = None \<and>
   sendMessagesBatch [ana] ''Hi [Name]'' (Finite (- 5)) (Finite 2000) (Finite 3)
       (no_service_world api_env_without_token clientState_initial) = None"
proof (intro conjI)
  show "split_loop [ana, cash, anonymous] (Finite 2) (Finite 0) []
          = Some [[ana, cash], [anonymous]]"
    by (simp add: split_loop.simps slice_def round_to_zero_def)
  have "(1::int) \<le> 2 \<and> 2 \<le> MAX_SAFE_INTEGER \<and> \<bar>3::int\<bar> \<le> MAX_SAFE_INTEGER"
    by (simp add: MAX_SAFE_INTEGER_def)
  with sendMessagesBatch_terminates_for_integers
    [of 2 3 "[ana, cash, anonymous]" "''Hi [Name]''" "Finite 2000"
        "no_service_world api_env_without_token clientState_initial"]
  show "sendMessagesBatch [ana, cash, anonymous] ''Hi [Name]'' (Finite 2) (Finite 2000) (Finite 3)
       (no_service_world api_env_without_token clientState_initial) \<noteq> None"
    by auto
  have "(0::rat) \<le> 0 \<and> [ana] \<noteq> []" by simp
  with sendMessagesBatch_terminates_for_integers
    [of _ _ "[ana]" "''Hi [Name]''" "Finite 2000"
        "no_service_world api_env_without_token clientState_initial" 0 "Finite 3"]
  show "sendMessagesBatch [ana] ''Hi [Name]'' (Finite 0) (Finite 2000) (Finite 3)
       (no_service_world api_env_without_token clientState_initial) = None"
    by blast
  have "(- 5::rat) \<le> 0 \<and> [ana] \<noteq> []" by simp
  with sendMessagesBatch_terminates_for_integers
    [of _ _ "[ana]" "''Hi [Name]''" "Finite 2000"
        "no_service_world api_env_without_token clientState_initial" "- 5" "Finite 3"]
  show "sendMessagesBatch [ana] ''Hi [Name]'' (Finite (- 5)) (Finite 2000) (Finite 3)
       (no_service_world api_env_without_token clientState_initial) = None"
    by blast
qed

text \<open>The runs behind the counterexample to claim C10 as stated.\<close>

lemma split_single_unit: "split_loop [ana] (Finite 1) (Finite 0) [] = Some [[ana]]"
  by (simp add: split_loop.simps slice_def round_to_zero_def)

lemma batch_with_infinite_retries:
  "sendMessagesBatch [ana] ''Hi [Name]'' (Finite 1) (Finite 2000) PosInfinity
       (no_service_world api_env_without_token clientState_initial) = None"
proof -
  have "env (no_service_world api_env_without_token clientState_initial) = api_env_without_token"
    by (simp add: no_service_world_def)
  then have "retry_loop ana ''Hi [Name]'' (Finite 2000) PosInfinity 0 False [] []
       (no_service_world api_env_without_token clientState_initial) = None"
    by (rule retry_loop_diverges)
  then show ?thesis
    by (simp add: sendMessagesBatch_def split_single_unit process_contact_def)
qed

lemma floor_three_halves: "\<lfloor>3 / 2 :: rat\<rfloor> = 1"
  by (rule floor_unique) simp_all

lemma floor_one_half: "\<lfloor>1 / 2 :: rat\<rfloor> = 0"
  by (rule floor_unique) simp_all

text \<open>
  Claim C10, as stated, fails for numbers that are not integers. With a batch size of
  1.5 and three contacts the second batch holds two contacts, more than the batch size.
  With a batch size of 0.5 the partition loop ends, so a batch size of at least 1 is not
  necessary for that. With a batch size of 1 and \<^verbatim>\<open>Infinity\<close> for the retry bound, the
  business API selected and no access token, the dispatcher never returns.
\<close>

theorem batchSize_at_least_one_counterexample:
  "split_loop [ana, cash, anonymous] (Finite (3 / 2)) (Finite 0) []
     = Some [[ana], [cash, anonymous]] \<and>
   number_less (Finite (3 / 2)) (Finite (of_nat (length [cash, anonymous]))) \<and>
   split_loop [ana] (Finite (1 / 2)) (Finite 0) [] = Some [[], [ana]] \<and>
   sendMessagesBatch [ana] ''Hi [Name]'' (Finite 1) (Finite 2000) PosInfinity
       (no_service_world api_env_without_token clientState_initial) = None"
proof (intro conjI)
  show "split_loop [ana, cash, anonymous] (Finite (3 / 2)) (Finite 0) []
     = Some [[ana], [cash, anonymous]]"
    by (simp add: split_loop.simps slice_def round_to_zero_def floor_three_halves)
  show "number_less (Finite (3 / 2)) (Finite (of_nat (length [cash, anonymous])))"
    by simp
  show "split_loop [ana] (Finite (1 / 2)) (Finite 0) [] = Some [[], [ana]]"
    by (simp add: split_loop.simps slice_def round_to_zero_def floor_one_half)
  show "sendMessagesBatch [ana] ''Hi [Name]'' (Finite 1) (Finite 2000) PosInfinity
       (no_service_world api_env_without_token clientState_initial) = None"
    by (rule batch_with_infinite_retries)
qed

text \<open>
  The run behind the next two statements: one contact, the default batch size, delay and
  retry bound, the business API selected and no access token. Each of the three attempts
  fails and its result is recorded; the loop then records a failure of its own.
\<close>

lemma split_single: "split_loop [ana] (Finite 50) (Finite 0) [] = Some [[ana]]"
  by (simp add: split_loop.simps slice_def round_to_zero_def)

lemma batch_without_token:
  "sendMessagesBatch [ana] ''Hi [Name]'' default_batchSize default_delayBetweenMessages
      default_maxRetries (no_service_world api_env_without_token clientState_initial)
   = Some (\<lparr>results_out = replicate 4 (tagged_failure CredentialsMissing ''c1''),
            summary = \<lparr>total = 1, successful = 0, failed = 4\<rparr>\<rparr>,
           (no_service_world api_env_without_token clientState_initial)
             \<lparr>now := 8000, waits := replicate 4 (Finite 2000)\<rparr>)"
  apply (simp add: sendMessagesBatch_def default_batchSize_def default_delayBetweenMessages_def
      default_maxRetries_def split_single process_contact_def)
  apply (simp add: retry_loop.simps attempt_send_def sendMessage_def
      sendMessageUsingBusinessAPI_def businessAPI_try_def catch_to_result_def
      api_env_without_token_def no_service_world_def sleep_def message_result.extend_def
      tagged_failure_def ana_def CredentialsMissing_def numeral_eq_Suc)
  done

text \<open>
  Claim C1. The result list is to hold exactly one result for each contact. For the one
  contact of this run it holds four with the contact's identifier: the results of the
  three failed attempts and the failure recorded after the loop.
\<close>

theorem batch_records_every_attempt:
  "map_option (\<lambda>(out, w'). results_out out)
     (sendMessagesBatch [ana] ''Hi [Name]'' default_batchSize default_delayBetweenMessages
        default_maxRetries (no_service_world api_env_without_token clientState_initial))
   = Some (replicate 4 (tagged_failure CredentialsMissing (id_contact ana))) \<and>
   map_option (\<lambda>(out, w'). length (filter (\<lambda>r. contactId r = id_contact ana) (results_out out)))
     (sendMessagesBatch [ana] ''Hi [Name]'' default_batchSize default_delayBetweenMessages
        default_maxRetries (no_service_world api_env_without_token clientState_initial))
   = Some 4"
  by (simp add: batch_without_token) (simp add: ana_def tagged_failure_def numeral_eq_Suc)

text \<open>
  Claim C2. The summary is to satisfy \<open>successful + failed = total\<close>. For the same run
  the total is the one contact, no entry of the result list is a success and four are
  failures.
\<close>

theorem batch_summary_counts_attempts:
  "map_option (\<lambda>(out, w'). summary out)
     (sendMessagesBatch [ana] ''Hi [Name]'' default_batchSize default_delayBetweenMessages
        default_maxRetries (no_service_world api_env_without_token clientState_initial))
   = Some \<lparr>total = 1, successful = 0, failed = 4\<rparr> \<and>
   map_option (\<lambda>(out, w'). successful (summary out) + failed (summary out) = total (summary out))
     (sendMessagesBatch [ana] ''Hi [Name]'' default_batchSize default_delayBetweenMessages
        default_maxRetries (no_service_world api_env_without_token clientState_initial))
   = Some False"
  by (simp add: batch_without_token)

end
